theory Spec2Isabelle
  imports Complex_Main "HOL-Library.Log_Nat"
begin

section \<open>Numbers\<close>

text \<open>
  The component under study is \<^verbatim>\<open>HighlightRenderer\<close> of
  \<^verbatim>\<open>src/components/highlighting/ui/highlight-renderer.jsx\<close>.

  A JavaScript number is an IEEE-754 binary64 value. A finite one is a real number
  \<open>m * 2 ^ e\<close> with an integer \<open>m\<close> of at most 53 bits, and an arithmetic
  operator returns the exact result rounded to the nearest such number, ties going to
  the even \<open>m\<close>. Coordinates are kept as real numbers, and the subtraction of the
  source is the exact difference rounded in this way. A decimal literal of JavaScript
  is the rounded value of its decimal fraction.

  \<open>exponent x\<close> is the integer \<open>e\<close> with \<open>2 ^ e \<le> \<bar>x\<bar> < 2 ^ (e + 1)\<close>, computed
  from the bit length of the integer part of \<open>\<bar>x\<bar>\<close>, or of \<open>1 / \<bar>x\<bar>\<close> when
  \<open>\<bar>x\<bar> < 1\<close>.

  The exponent is not bounded. The difference of two binary64 numbers that is too small
  for a normal number is a multiple of the smallest subnormal and has fewer than 53 bits,
  so it is exact in binary64 and here. A difference too large for binary64 is
  an infinity there and a number beyond every binary64 number here, with the same sign
  and the same outcome of the two comparisons of the hit test against a finite size.
  \<^verbatim>\<open>NaN\<close> is not modelled.
\<close>

definition exponent :: "real \<Rightarrow> int" where
  "exponent x =
     (if 1 \<le> \<bar>x\<bar> then bitlen \<lfloor>\<bar>x\<bar>\<rfloor> - 1
      else (let k = bitlen \<lfloor>1 / \<bar>x\<bar>\<rfloor>
            in if \<bar>x\<bar> * 2 powi (k - 1) = 1 then 1 - k else - k))"

definition roundTiesToEven :: "real \<Rightarrow> int" where
  "roundTiesToEven y =
     (let n = \<lfloor>y\<rfloor>; d = y - of_int n
      in if d < 1 / 2 then n
         else if 1 / 2 < d then n + 1
         else if even n then n else n + 1)"

definition round64 :: "real \<Rightarrow> real" where
  "round64 x =
     (if x = 0 then 0
      else (let ulp = 2 powi (exponent x - 52)
            in of_int (roundTiesToEven (x / ulp)) * ulp))"

text \<open>The operator \<^verbatim>\<open>-\<close> of JavaScript on numbers.\<close>

definition fsub :: "real \<Rightarrow> real \<Rightarrow> real" where
  "fsub x y = round64 (x - y)"


section \<open>Data model\<close>

text \<open>
  \<^verbatim>\<open>Position\<close> is \<^verbatim>\<open>{left, top}\<close> and \<^verbatim>\<open>Rect\<close> adds
  \<^verbatim>\<open>{width, height}\<close>: the source passes a \<^verbatim>\<open>Rect\<close> where a
  \<^verbatim>\<open>Position\<close> is expected, which record extension reproduces. The field
  \<^verbatim>\<open>top\<close> is written \<open>top_px\<close>, since \<open>top\<close> is the greatest element of
  a lattice in HOL.
\<close>

record Position =
  left :: real
  top_px :: real

record Rect = Position +
  width :: real
  height :: real

section \<open>Geometry utilities\<close>

text \<open>
  Modelled from the spec: \<^verbatim>\<open>getRelativePosition\<close> of \<^verbatim>\<open>./util.js\<close>, which is
  not among the sources. The spec (4.1, \<^verbatim>\<open>toRelativePosition\<close>): it subtracts the
  origin's \<^verbatim>\<open>left/top\<close> from the point's \<^verbatim>\<open>left/top\<close>, with the
  subtraction of JavaScript.
\<close>

definition getRelativePosition ::
  "'a Position_scheme \<Rightarrow> 'b Position_scheme \<Rightarrow> Position" where
  "getRelativePosition childPosition parentPosition =
     \<lparr>left = fsub (left childPosition) (left parentPosition),
      top_px = fsub (top_px childPosition) (top_px parentPosition)\<rparr>"

text \<open>
  Modelled from the spec: \<^verbatim>\<open>getRelativeRect\<close> of \<^verbatim>\<open>./util.js\<close>, which is not
  among the sources. The spec (4.1, \<^verbatim>\<open>toRelativeRect\<close>): the same transform applied
  to the rectangle's top-left corner, width and height unchanged.
\<close>

definition getRelativeRect :: "Rect \<Rightarrow> Rect \<Rightarrow> Rect" where
  "getRelativeRect childRect parentRect =
     \<lparr>left = fsub (left childRect) (left parentRect),
      top_px = fsub (top_px childRect) (top_px parentRect),
      width = width childRect,
      height = height childRect\<rparr>"

section \<open>The page the component lives in\<close>

text \<open>
  JavaScript objects are compared by identity (\<^verbatim>\<open>!==\<close>), so highlights, DOM
  elements and callbacks are references; what a reference denotes is looked up in the
  page. A \<^verbatim>\<open>DOMHighlight\<close> (declared in \<^verbatim>\<open>./types.js\<close>, not among the
  sources) is used through its field \<^verbatim>\<open>domRange\<close> only, and a DOM
  \<^verbatim>\<open>Range\<close> through its boundary points.
\<close>

type_synonym ref = nat

record DOMRange =
  startContainer :: ref
  startOffset :: nat
  endContainer :: ref
  endOffset :: nat

record DOMHighlight =
  domRange :: DOMRange

text \<open>
  The layout engine is a parameter of the model. \<open>highlightAt\<close> is the heap of
  highlight objects. \<open>getClientRectsForTextInRange\<close> stands for the function of that
  name in \<^verbatim>\<open>./util.js\<close> (not among the sources; the spec's
  \<^verbatim>\<open>rectsForRange\<close>): the rectangles covering a range, in viewport coordinates,
  under the present layout. \<open>getBoundingClientRect\<close> is the DOM method of an element.
\<close>

record page =
  highlightAt :: "ref \<Rightarrow> DOMHighlight"
  getClientRectsForTextInRange :: "DOMRange \<Rightarrow> Rect list"
  getBoundingClientRect :: "ref \<Rightarrow> Rect"

text \<open>
  Calls that leave the component are recorded in the order the source makes them: the
  two measurements of the layout and the call of the \<^verbatim>\<open>onRemoveHighlight\<close>
  callback (the callback's reference and its argument).
\<close>

datatype call =
  CallGetClientRectsForTextInRange DOMRange
  | CallGetBoundingClientRect ref
  | CallOnRemoveHighlight ref string

section \<open>Props, state and the component\<close>

record ZIndexes =
  aboveContent :: int
  belowContent :: int

record HighlightRendererProps =
  editable :: bool
  highlight :: ref
  highlightKey :: string
  mouseClientPosition :: "Position option"
  offsetParent :: ref
  onRemoveHighlight :: ref
  zIndexes :: ZIndexes

record HighlightRendererState =
  cachedHighlightRects :: "Rect list"
  tooltipIsHovered :: bool

record HighlightRenderer =
  props :: HighlightRendererProps
  state :: HighlightRendererState

section \<open>The rectangle cache\<close>

text \<open>
  \<^verbatim>\<open>_computeRects(props)\<close>, lines 99-110. It reads its argument and the page, and
  nothing of the component.
\<close>

definition computeRects :: "page \<Rightarrow> HighlightRendererProps \<Rightarrow> Rect list \<times> call list" where
  "computeRects pg ps =
     (let domRange' = domRange (highlightAt pg (highlight ps));
          clientRects = getClientRectsForTextInRange pg domRange';
          offsetParentRect = getBoundingClientRect pg (offsetParent ps);
          relativeRects = map (\<lambda>rect. getRelativeRect rect offsetParentRect) clientRects
      in (relativeRects,
          [CallGetClientRectsForTextInRange domRange',
           CallGetBoundingClientRect (offsetParent ps)]))"

text \<open>
  The initial state, lines 78-81: the class property initialiser runs
  \<^verbatim>\<open>_computeRects(this.props)\<close> when the component is constructed.
\<close>

definition mount :: "page \<Rightarrow> HighlightRendererProps \<Rightarrow> HighlightRenderer \<times> call list" where
  "mount pg ps =
     (case computeRects pg ps of (rects, calls) \<Rightarrow>
        (\<lparr>props = ps,
          state = \<lparr>cachedHighlightRects = rects, tooltipIsHovered = False\<rparr>\<rparr>,
         calls))"

text \<open>
  \<^verbatim>\<open>componentWillReceiveProps(nextProps)\<close>, lines 83-92. The result is the state after
  the \<^verbatim>\<open>setState\<close> call, if there is one; \<^verbatim>\<open>setState\<close> merges the given
  fields into the state, so \<open>tooltipIsHovered\<close> is kept.
\<close>

definition componentWillReceiveProps ::
  "page \<Rightarrow> HighlightRenderer \<Rightarrow> HighlightRendererProps \<Rightarrow> HighlightRendererState \<times> call list" where
  "componentWillReceiveProps pg this nextProps =
     (if highlight (props this) \<noteq> highlight nextProps \<or>
         offsetParent (props this) \<noteq> offsetParent nextProps
      then (case computeRects pg nextProps of (rects, calls) \<Rightarrow>
              ((state this)\<lparr>cachedHighlightRects := rects\<rparr>, calls))
      else (state this, []))"

text \<open>
  What React does around the hook: it calls \<^verbatim>\<open>componentWillReceiveProps\<close> with the
  old props still in place, then installs the new props and the updated state.
\<close>

definition receiveProps ::
  "page \<Rightarrow> HighlightRenderer \<Rightarrow> HighlightRendererProps \<Rightarrow> HighlightRenderer \<times> call list" where
  "receiveProps pg this nextProps =
     (case componentWillReceiveProps pg this nextProps of (st, calls) \<Rightarrow>
        (\<lparr>props = nextProps, state = st\<rparr>, calls))"

section \<open>Event handlers\<close>

text \<open>
  \<^verbatim>\<open>_handleRemoveHighlight\<close>, lines 112-114: one call of the callback, no
  \<^verbatim>\<open>setState\<close>.
\<close>

definition handleRemoveHighlight :: "HighlightRenderer \<Rightarrow> HighlightRendererState \<times> call list" where
  "handleRemoveHighlight this =
     (state this,
      [CallOnRemoveHighlight (onRemoveHighlight (props this)) (highlightKey (props this))])"

text \<open>\<^verbatim>\<open>_handleTooltipMouseEnter\<close> and \<^verbatim>\<open>_handleTooltipMouseLeave\<close>, lines 116-122.\<close>

definition handleTooltipMouseEnter :: "HighlightRenderer \<Rightarrow> HighlightRendererState \<times> call list" where
  "handleTooltipMouseEnter this = ((state this)\<lparr>tooltipIsHovered := True\<rparr>, [])"

definition handleTooltipMouseLeave :: "HighlightRenderer \<Rightarrow> HighlightRendererState \<times> call list" where
  "handleTooltipMouseLeave this = ((state this)\<lparr>tooltipIsHovered := False\<rparr>, [])"

section \<open>Hover evaluation\<close>

text \<open>
  \<^verbatim>\<open>_rectIsHovered(rect, mouseOffsetPosition)\<close>, lines 152-160: the mouse position is
  taken relative to the rectangle and compared with \<open>0\<close> and with the rectangle's size.
\<close>

definition rectIsHovered :: "Rect \<Rightarrow> Position \<Rightarrow> bool" where
  "rectIsHovered rect mouseOffsetPosition =
     (let positionWithinRect = getRelativePosition mouseOffsetPosition rect
      in 0 \<le> left positionWithinRect \<and>
         left positionWithinRect < width rect \<and>
         0 \<le> top_px positionWithinRect \<and>
         top_px positionWithinRect < height rect)"

text \<open>
  \<^verbatim>\<open>_highlightIsHovered(mouseClientPosition)\<close>, lines 128-145. An absent position
  (\<^verbatim>\<open>null\<close> or \<^verbatim>\<open>undefined\<close>) is \<open>None\<close>. \<^verbatim>\<open>Array.prototype.some\<close> is
  \<open>list_ex\<close>.
\<close>

definition highlightIsHovered ::
  "page \<Rightarrow> HighlightRenderer \<Rightarrow> Position option \<Rightarrow> bool \<times> call list" where
  "highlightIsHovered pg this mouseClientPosition' =
     (case mouseClientPosition' of
        None \<Rightarrow> (False, [])
      | Some mousePos \<Rightarrow>
          (let offsetParent' = offsetParent (props this);
               cachedHighlightRects' = cachedHighlightRects (state this);
               offsetParentRect = getBoundingClientRect pg offsetParent';
               mouseOffsetPosition = getRelativePosition mousePos offsetParentRect
           in (list_ex (\<lambda>rect. rectIsHovered rect mouseOffsetPosition) cachedHighlightRects',
               [CallGetBoundingClientRect offsetParent'])))"

text \<open>\<^verbatim>\<open>_shouldShowTooltip()\<close>, lines 165-184, with its three early returns.\<close>

definition shouldShowTooltip :: "page \<Rightarrow> HighlightRenderer \<Rightarrow> bool \<times> call list" where
  "shouldShowTooltip pg this =
     (if \<not> editable (props this) then (False, [])
      else if tooltipIsHovered (state this) then (True, [])
      else (case highlightIsHovered pg this (mouseClientPosition (props this)) of
              (hovered, calls) \<Rightarrow> if hovered then (True, calls) else (False, calls)))"

section \<open>Rendering\<close>

text \<open>
  \<^verbatim>\<open>render()\<close>, lines 186-225. The output is the list of highlight rectangles (one
  absolutely positioned \<^verbatim>\<open>div\<close> per cached rectangle, keyed by its index) and the
  optional \<^verbatim>\<open>HighlightTooltip\<close> element with the props the source passes. The
  label is the message handed to \<^verbatim>\<open>i18n._\<close>; the three handlers are the bound
  methods above.
\<close>

record HighlightRectDiv =
  divKey :: nat
  stylePosition :: string
  styleBox :: Rect
  styleZIndex :: int

datatype handler = HandleRemoveHighlight | HandleTooltipMouseEnter | HandleTooltipMouseLeave

record HighlightTooltipProps =
  label :: string
  onClick :: handler
  onMouseEnter :: handler
  onMouseLeave :: handler
  focusNode :: ref
  focusOffset :: nat
  tooltipOffsetParent :: ref
  zIndex :: int

record Rendered =
  highlightRectDivs :: "HighlightRectDiv list"
  tooltip :: "HighlightTooltipProps option"

definition render :: "page \<Rightarrow> HighlightRenderer \<Rightarrow> Rendered \<times> call list" where
  "render pg this =
     (let rects = cachedHighlightRects (state this);
          divs = map (\<lambda>(rect, index).
                   \<lparr>divKey = index,
                    stylePosition = ''absolute'',
                    styleBox = \<lparr>left = left rect, top_px = top_px rect,
                                width = width rect, height = height rect\<rparr>,
                    styleZIndex = belowContent (zIndexes (props this))\<rparr>)
                 (zip rects [0 ..< length rects])
      in (case shouldShowTooltip pg this of
            (shown, calls) \<Rightarrow>
              (\<lparr>highlightRectDivs = divs,
                tooltip =
                  (if shown
                   then Some \<lparr>label = ''Remove highlight'',
                              onClick = HandleRemoveHighlight,
                              onMouseEnter = HandleTooltipMouseEnter,
                              onMouseLeave = HandleTooltipMouseLeave,
                              focusNode = endContainer (domRange (highlightAt pg (highlight (props this)))),
                              focusOffset = endOffset (domRange (highlightAt pg (highlight (props this)))),
                              tooltipOffsetParent = offsetParent (props this),
                              zIndex = aboveContent (zIndexes (props this))\<rparr>
                   else None)\<rparr>,
               calls)))"

text \<open>
  The tooltip receives the handlers as bound methods; when the presentation layer fires
  one of them, the method of that name runs on the component.
\<close>

fun invoke :: "handler \<Rightarrow> HighlightRenderer \<Rightarrow> HighlightRendererState \<times> call list" where
  "invoke HandleRemoveHighlight this = handleRemoveHighlight this"
| "invoke HandleTooltipMouseEnter this = handleTooltipMouseEnter this"
| "invoke HandleTooltipMouseLeave this = handleTooltipMouseLeave this"

section \<open>Life of a component\<close>

text \<open>
  A component is constructed by \<open>mount\<close>; afterwards it receives props, each on the
  layout the page has at that time, and handler calls, in any order.
\<close>

datatype event = ReceiveProps page HighlightRendererProps | Fire handler

fun step :: "HighlightRenderer \<Rightarrow> event \<Rightarrow> HighlightRenderer" where
  "step this (ReceiveProps pg nextProps) = fst (receiveProps pg this nextProps)"
| "step this (Fire h) = this\<lparr>state := fst (invoke h this)\<rparr>"

definition run :: "page \<Rightarrow> HighlightRendererProps \<Rightarrow> event list \<Rightarrow> HighlightRenderer" where
  "run pg ps events = foldl step (fst (mount pg ps)) events"

text \<open>
  The page and the props that produced the current cache, in the spec's words (3 and
  4.2): the cache is created at mount from the highlight and the container of that
  time, and it is replaced whenever props arrive whose highlight or container differs
  from the values used to produce the current cache, and by nothing else. This
  definition does not look at the component.
\<close>

fun producedFromStep ::
  "page \<times> HighlightRendererProps \<Rightarrow> event \<Rightarrow> page \<times> HighlightRendererProps" where
  "producedFromStep (pg0, ps0) (ReceiveProps pg nextProps) =
     (if highlight nextProps \<noteq> highlight ps0 \<or> offsetParent nextProps \<noteq> offsetParent ps0
      then (pg, nextProps) else (pg0, ps0))"
| "producedFromStep (pg0, ps0) (Fire h) = (pg0, ps0)"

definition producedFrom ::
  "page \<Rightarrow> HighlightRendererProps \<Rightarrow> event list \<Rightarrow> page \<times> HighlightRendererProps" where
  "producedFrom pg ps events = foldl producedFromStep (pg, ps) events"

section \<open>Example inputs\<close>

text \<open>
  A highlight that wraps over two lines, in a container whose top-left corner is at
  \<open>(20, 40)\<close> of the viewport. Every highlight reference of \<open>page1\<close> denotes an
  object with the same contents, so two references differ by identity only.
  \<open>page2\<close> is the same page after the container has scrolled up by \<open>100\<close>.
\<close>

definition range1 :: DOMRange where
  "range1 = \<lparr>startContainer = 7, startOffset = 2, endContainer = 8, endOffset = 5\<rparr>"

definition page1 :: page where
  "page1 =
     \<lparr>highlightAt = (\<lambda>_. \<lparr>domRange = range1\<rparr>),
      getClientRectsForTextInRange =
        (\<lambda>_. [\<lparr>left = 120, top_px = 40, width = 60, height = 10\<rparr>,
               \<lparr>left = 20, top_px = 50, width = 100, height = 10\<rparr>]),
      getBoundingClientRect = (\<lambda>_. \<lparr>left = 20, top_px = 40, width = 300, height = 200\<rparr>)\<rparr>"

definition page2 :: page where
  "page2 =
     \<lparr>highlightAt = (\<lambda>_. \<lparr>domRange = range1\<rparr>),
      getClientRectsForTextInRange =
        (\<lambda>_. [\<lparr>left = 120, top_px = - 60, width = 60, height = 10\<rparr>,
               \<lparr>left = 20, top_px = - 50, width = 100, height = 10\<rparr>]),
      getBoundingClientRect = (\<lambda>_. \<lparr>left = 20, top_px = - 60, width = 300, height = 200\<rparr>)\<rparr>"

text \<open>A page on which the range of every highlight has no visible extent.\<close>

definition emptyPage :: page where
  "emptyPage =
     \<lparr>highlightAt = (\<lambda>_. \<lparr>domRange = range1\<rparr>),
      getClientRectsForTextInRange = (\<lambda>_. []),
      getBoundingClientRect = (\<lambda>_. \<lparr>left = 20, top_px = 40, width = 300, height = 200\<rparr>)\<rparr>"

text \<open>Props with the mouse at \<open>(125, 45)\<close> of the viewport, over the first line.\<close>

definition props1 :: HighlightRendererProps where
  "props1 =
     \<lparr>editable = True, highlight = 1, highlightKey = ''hl-1'',
      mouseClientPosition = Some \<lparr>left = 125, top_px = 45\<rparr>,
      offsetParent = 3, onRemoveHighlight = 9,
      zIndexes = \<lparr>aboveContent = 2, belowContent = - 1\<rparr>\<rparr>"

text \<open>The component of the spec's example: one cached rectangle of size \<open>10\<close> at the origin.\<close>

definition renderer1 :: HighlightRenderer where
  "renderer1 =
     \<lparr>props = props1,
      state = \<lparr>cachedHighlightRects = [\<lparr>left = 0, top_px = 0, width = 10, height = 10\<rparr>],
               tooltipIsHovered = False\<rparr>\<rparr>"

section \<open>Properties\<close>

subsection \<open>Auxiliary facts\<close>

lemma powi2_less_cancel: "(2::real) powi a < 2 powi b \<Longrightarrow> a < b"
  using power_int_increasing [of b a "2::real"] by (cases "a < b") auto

lemma powi2_Suc: "(2::real) powi (e + 1) = 2 * 2 powi e"
  by (simp add: power_int_add)

lemma exponent_bounds:
  assumes "x \<noteq> 0"
  shows "2 powi exponent x \<le> \<bar>x\<bar> \<and> \<bar>x\<bar> < 2 powi (exponent x + 1)"
proof (cases "1 \<le> \<bar>x\<bar>")
  case True
  define m where "m = \<lfloor>\<bar>x\<bar>\<rfloor>"
  have m: "0 < m" using True by (simp add: m_def)
  have e: "exponent x = bitlen m - 1" using True by (simp add: exponent_def m_def)
  have b: "1 \<le> bitlen m" using m by (simp add: bitlen_alt_def)
  from bitlen_bounds [OF m] have lo: "2 ^ nat (bitlen m - 1) \<le> m" and hi: "m < 2 ^ nat (bitlen m)"
    by auto
  have "(2::real) powi (bitlen m - 1) = 2 ^ nat (bitlen m - 1)"
    using b by (simp add: power_int_def)
  also have "\<dots> \<le> of_int m" using lo by (metis of_int_le_iff of_int_numeral of_int_power)
  also have "\<dots> \<le> \<bar>x\<bar>" by (simp add: m_def)
  finally have 1: "2 powi exponent x \<le> \<bar>x\<bar>" by (simp add: e)
  have "m + 1 \<le> 2 ^ nat (bitlen m)" using hi by simp
  then have "real_of_int (m + 1) \<le> 2 ^ nat (bitlen m)"
    by (metis of_int_le_iff of_int_numeral of_int_power)
  moreover have "\<bar>x\<bar> < real_of_int (m + 1)" by (simp add: m_def)
  moreover have "(2::real) powi (bitlen m) = 2 ^ nat (bitlen m)"
    using b by (simp add: power_int_def)
  ultimately have 2: "\<bar>x\<bar> < 2 powi (exponent x + 1)" by (simp add: e)
  from 1 2 show ?thesis ..
next
  case False
  then have small: "\<bar>x\<bar> < 1" by simp
  have pos: "0 < \<bar>x\<bar>" using assms by simp
  define y where "y = 1 / \<bar>x\<bar>"
  define m where "m = \<lfloor>y\<rfloor>"
  define k where "k = bitlen m"
  have y: "1 < y" using small pos by (simp add: y_def)
  have m: "0 < m" using y by (simp add: m_def)
  have b: "1 \<le> k" using m by (simp add: bitlen_alt_def k_def)
  from bitlen_bounds [OF m] have lo: "2 ^ nat (k - 1) \<le> m" and hi: "m < 2 ^ nat k"
    by (auto simp: k_def)
  have "(2::real) ^ nat (k - 1) \<le> of_int m"
    using lo by (metis of_int_le_iff of_int_numeral of_int_power)
  also have "\<dots> \<le> y" by (simp add: m_def)
  finally have ylo: "2 ^ nat (k - 1) \<le> y" .
  have "m + 1 \<le> 2 ^ nat k" using hi by simp
  then have "real_of_int (m + 1) \<le> 2 ^ nat k"
    by (metis of_int_le_iff of_int_numeral of_int_power)
  moreover have "y < real_of_int (m + 1)" by (simp add: m_def)
  ultimately have yhi: "y < 2 ^ nat k" by simp
  have p1: "(2::real) powi (k - 1) = 2 ^ nat (k - 1)" using b by (simp add: power_int_def)
  have xhi: "\<bar>x\<bar> * 2 ^ nat (k - 1) \<le> 1"
    using ylo pos by (simp add: y_def field_simps)
  have xlo: "1 < \<bar>x\<bar> * 2 ^ nat k"
    using yhi pos by (simp add: y_def field_simps)
  have pk: "(2::real) powi (- k) = 1 / 2 ^ nat k"
    using b by (simp add: power_int_def field_simps)
  have pk1: "(2::real) powi (1 - k) = 1 / 2 ^ nat (k - 1)"
    using b by (simp add: power_int_def field_simps nat_diff_distrib)
  have pk2: "(2::real) ^ nat k = 2 * 2 ^ nat (k - 1)"
    using b by (metis Suc_nat_eq_nat_zadd1 add.commute diff_add_cancel diff_ge_0_iff_ge power_Suc)
  show ?thesis
  proof (cases "\<bar>x\<bar> * 2 powi (k - 1) = 1")
    case True
    then have e: "exponent x = 1 - k"
      using small by (simp add: exponent_def Let_def k_def m_def y_def)
    have eq: "\<bar>x\<bar> = 1 / 2 ^ nat (k - 1)" using True p1 by (simp add: field_simps)
    have "(2::real) powi (exponent x + 1) = 2 * 2 powi (1 - k)"
      unfolding e by (rule powi2_Suc)
    then show ?thesis using eq by (simp add: e pk1 divide_strict_right_mono)
  next
    case False
    then have e: "exponent x = - k"
      using small by (simp add: exponent_def Let_def k_def m_def y_def)
    have 1: "2 powi exponent x \<le> \<bar>x\<bar>"
      using xlo by (simp add: e pk field_simps)
    have "\<bar>x\<bar> * 2 ^ nat (k - 1) < 1" using xhi False p1 by simp
    then have 2: "\<bar>x\<bar> < 2 powi (exponent x + 1)"
      by (simp add: e pk1 field_simps)
    from 1 2 show ?thesis ..
  qed
qed

lemma exponent_eqI:
  assumes "2 powi e \<le> \<bar>x\<bar>" "\<bar>x\<bar> < 2 powi (e + 1)"
  shows "exponent x = e"
proof -
  have "(0::real) < 2 powi e" by simp
  with assms(1) have "0 < \<bar>x\<bar>" by linarith
  then have x: "x \<noteq> 0" by simp
  from exponent_bounds [OF x] have b: "2 powi exponent x \<le> \<bar>x\<bar>" "\<bar>x\<bar> < 2 powi (exponent x + 1)"
    by auto
  have "(2::real) powi e < 2 powi (exponent x + 1)" using assms(1) b(2) by simp
  then have 1: "e < exponent x + 1" by (rule powi2_less_cancel)
  have "(2::real) powi exponent x < 2 powi (e + 1)" using assms(2) b(1) by simp
  then have 2: "exponent x < e + 1" by (rule powi2_less_cancel)
  from 1 2 show ?thesis by simp
qed


lemma roundTiesToEven_ge: "of_int n \<le> y \<Longrightarrow> n \<le> roundTiesToEven y"
proof -
  assume "of_int n \<le> y"
  then have "n \<le> \<lfloor>y\<rfloor>" by (simp add: le_floor_iff)
  then show ?thesis by (simp add: roundTiesToEven_def Let_def)
qed

lemma roundTiesToEven_le: "y \<le> of_int n \<Longrightarrow> roundTiesToEven y \<le> n"
proof (cases "y = of_int n")
  case True
  then show ?thesis by (simp add: roundTiesToEven_def)
next
  case False
  assume "y \<le> of_int n"
  with False have "y < of_int n" by simp
  then have "\<lfloor>y\<rfloor> < n" by (simp add: floor_less_iff)
  then show ?thesis by (simp add: roundTiesToEven_def Let_def)
qed

lemma roundTiesToEven_of_int: "roundTiesToEven (of_int n) = n"
  by (simp add: roundTiesToEven_def)

lemma scaled_bounds:
  assumes "x \<noteq> 0"
  shows "2 ^ 52 \<le> \<bar>x\<bar> / 2 powi (exponent x - 52)"
proof -
  have "(2::real) powi exponent x = 2 powi (exponent x - 52) * 2 ^ 52"
    using power_int_add [of "2::real" "exponent x - 52" 52] by simp
  with exponent_bounds [OF assms] show ?thesis
    by (simp add: pos_le_divide_eq mult.commute)
qed

lemma round64_pos:
  assumes "0 < x"
  shows "2 powi exponent x \<le> round64 x"
proof -
  let ?u = "(2::real) powi (exponent x - 52)"
  have u: "0 < ?u" by simp
  have "of_int (2 ^ 52) \<le> x / ?u" using scaled_bounds [of x] assms by simp
  then have "2 ^ 52 \<le> roundTiesToEven (x / ?u)" by (rule roundTiesToEven_ge)
  then have "(2::real) ^ 52 \<le> of_int (roundTiesToEven (x / ?u))"
    by (metis of_int_le_iff of_int_numeral of_int_power)
  then have "2 ^ 52 * ?u \<le> of_int (roundTiesToEven (x / ?u)) * ?u"
    using u by (simp only: mult_le_cancel_right_pos)
  moreover have "(2::real) powi exponent x = 2 ^ 52 * ?u"
    using power_int_add [of "2::real" 52 "exponent x - 52"] by simp
  ultimately show ?thesis using assms by (simp add: round64_def Let_def)
qed

lemma round64_neg:
  assumes "x < 0"
  shows "round64 x \<le> - (2 powi exponent x)"
proof -
  let ?u = "(2::real) powi (exponent x - 52)"
  have u: "0 < ?u" by simp
  have "2 ^ 52 \<le> - x / ?u" using scaled_bounds [of x] assms by simp
  then have "x / ?u \<le> of_int (- (2 ^ 52))" by simp
  then have "roundTiesToEven (x / ?u) \<le> - (2 ^ 52)" by (rule roundTiesToEven_le)
  then have "of_int (roundTiesToEven (x / ?u)) \<le> (- (2 ^ 52) :: real)"
    by (metis of_int_le_iff of_int_minus of_int_numeral of_int_power)
  then have "of_int (roundTiesToEven (x / ?u)) * ?u \<le> - (2 ^ 52) * ?u"
    using u by (simp only: mult_le_cancel_right_pos)
  moreover have "(2::real) powi exponent x = 2 ^ 52 * ?u"
    using power_int_add [of "2::real" 52 "exponent x - 52"] by simp
  ultimately show ?thesis using assms by (simp add: round64_def Let_def)
qed

lemma round64_0: "round64 0 = 0"
  by (simp add: round64_def)

lemma round64_nonneg_iff: "0 \<le> round64 x \<longleftrightarrow> 0 \<le> x"
proof (cases "x = 0")
  case True
  then show ?thesis by (simp add: round64_0)
next
  case False
  have p: "(0::real) < 2 powi exponent x" by simp
  show ?thesis
  proof (cases "0 < x")
    case True
    with round64_pos [OF True] p show ?thesis by linarith
  next
    case neg: False
    with False have "x < 0" by simp
    with round64_neg [OF this] p show ?thesis by linarith
  qed
qed


lemma round64_int:
  assumes int: "of_int \<lfloor>x\<rfloor> = x" and small: "\<bar>x\<bar> < 2 ^ 53"
  shows "round64 x = x"
proof (cases "x = 0")
  case True
  then show ?thesis by (simp add: round64_0)
next
  case False
  define n where "n = \<lfloor>x\<rfloor>"
  have xn: "x = of_int n" unfolding n_def by (rule int [symmetric])
  have "(2::real) powi exponent x < 2 powi 53"
    using exponent_bounds [OF False] small by simp
  then have "exponent x < 53" by (rule powi2_less_cancel)
  then have e: "0 \<le> 52 - exponent x" by simp
  define j where "j = nat (52 - exponent x)"
  have u: "(2::real) powi (exponent x - 52) = 1 / 2 ^ j"
    using e power_int_minus [of "2::real" "52 - exponent x"]
    by (simp add: j_def power_int_def field_simps)
  have "x / 2 powi (exponent x - 52) = x * 2 ^ j"
    unfolding u by simp
  also have "\<dots> = of_int (n * 2 ^ j)"
    by (subst xn) simp
  finally have r: "roundTiesToEven (x / 2 powi (exponent x - 52)) = n * 2 ^ j"
    by (simp only: roundTiesToEven_of_int)
  have "round64 x = of_int (n * 2 ^ j) * 2 powi (exponent x - 52)"
    using False by (simp only: round64_def Let_def r if_False)
  also have "\<dots> = of_int n"
    unfolding u by simp
  finally show ?thesis by (simp only: xn [symmetric])
qed

lemma fsub_nonneg_iff: "0 \<le> fsub a b \<longleftrightarrow> b \<le> a"
  by (simp add: fsub_def round64_nonneg_iff)


lemma fsub_int:
  "of_int \<lfloor>a - b\<rfloor> = a - b \<Longrightarrow> \<bar>a - b\<bar> < 2 ^ 53 \<Longrightarrow> fsub a b = a - b"
  by (simp add: fsub_def round64_int)

lemma rectIsHovered_rounded:
  "rectIsHovered r p \<longleftrightarrow>
     left r \<le> left p \<and> fsub (left p) (left r) < width r \<and>
     top_px r \<le> top_px p \<and> fsub (top_px p) (top_px r) < height r"
  by (simp add: rectIsHovered_def getRelativePosition_def fsub_nonneg_iff)



lemma fst_highlightIsHovered_Some:
  "fst (highlightIsHovered pg this (Some p)) \<longleftrightarrow>
     (\<exists>r \<in> set (cachedHighlightRects (state this)).
        rectIsHovered r (getRelativePosition p (getBoundingClientRect pg (offsetParent (props this)))))"
  by (simp add: highlightIsHovered_def Let_def list_ex_iff)

lemma snd_highlightIsHovered_Some:
  "snd (highlightIsHovered pg this (Some p)) = [CallGetBoundingClientRect (offsetParent (props this))]"
  by (simp add: highlightIsHovered_def Let_def)

lemma highlightIsHovered_None: "highlightIsHovered pg this None = (False, [])"
  by (simp add: highlightIsHovered_def)

lemma fst_shouldShowTooltip:
  "fst (shouldShowTooltip pg this) \<longleftrightarrow>
     editable (props this) \<and>
     (tooltipIsHovered (state this) \<or>
      fst (highlightIsHovered pg this (mouseClientPosition (props this))))"
  by (simp add: shouldShowTooltip_def split: prod.split)

lemma fst_computeRects:
  "fst (computeRects pg ps) =
     map (\<lambda>rect. getRelativeRect rect (getBoundingClientRect pg (offsetParent ps)))
       (getClientRectsForTextInRange pg (domRange (highlightAt pg (highlight ps))))"
  by (simp add: computeRects_def Let_def)

lemma snd_computeRects:
  "snd (computeRects pg ps) =
     [CallGetClientRectsForTextInRange (domRange (highlightAt pg (highlight ps))),
      CallGetBoundingClientRect (offsetParent ps)]"
  by (simp add: computeRects_def Let_def)

lemma state_mount:
  "state (fst (mount pg ps)) =
     \<lparr>cachedHighlightRects = fst (computeRects pg ps), tooltipIsHovered = False\<rparr>"
  by (simp add: mount_def split: prod.split)

lemma props_mount: "props (fst (mount pg ps)) = ps"
  by (simp add: mount_def split: prod.split)

lemma componentWillReceiveProps_changed:
  "highlight (props this) \<noteq> highlight nextProps \<or>
   offsetParent (props this) \<noteq> offsetParent nextProps \<Longrightarrow>
   componentWillReceiveProps pg this nextProps =
     ((state this)\<lparr>cachedHighlightRects := fst (computeRects pg nextProps)\<rparr>,
      snd (computeRects pg nextProps))"
  by (simp add: componentWillReceiveProps_def split: prod.split)

lemma componentWillReceiveProps_same:
  "highlight (props this) = highlight nextProps \<Longrightarrow>
   offsetParent (props this) = offsetParent nextProps \<Longrightarrow>
   componentWillReceiveProps pg this nextProps = (state this, [])"
  by (simp add: componentWillReceiveProps_def)

lemma length_highlightRectDivs:
  "length (highlightRectDivs (fst (render pg this))) = length (cachedHighlightRects (state this))"
  by (simp add: render_def Let_def split: prod.split)

lemma tooltip_render:
  "tooltip (fst (render pg this)) = None \<longleftrightarrow> \<not> fst (shouldShowTooltip pg this)"
  by (simp add: render_def Let_def split: prod.split)

lemma run_snoc: "run pg ps (events @ [e]) = step (run pg ps events) e"
  by (simp add: run_def)

lemma producedFrom_snoc:
  "producedFrom pg ps (events @ [e]) = producedFromStep (producedFrom pg ps events) e"
  by (simp add: producedFrom_def)

lemma props_receiveProps: "props (fst (receiveProps pg this nextProps)) = nextProps"
  by (simp add: receiveProps_def split: prod.split)

lemma state_receiveProps:
  "state (fst (receiveProps pg this nextProps)) = fst (componentWillReceiveProps pg this nextProps)"
  by (simp add: receiveProps_def split: prod.split)

lemma snd_receiveProps:
  "snd (receiveProps pg this nextProps) = snd (componentWillReceiveProps pg this nextProps)"
  by (simp add: receiveProps_def split: prod.split)

lemma cachedHighlightRects_invoke:
  "cachedHighlightRects (fst (invoke h this)) = cachedHighlightRects (state this)"
  by (cases h)
    (simp_all add: handleRemoveHighlight_def handleTooltipMouseEnter_def
      handleTooltipMouseLeave_def)

text \<open>
  The component keeps the spec's policy: after mount and any events, its cache is what
  the recomputation returned on the page and for the props that the policy names, and
  its props hold the highlight and the offset parent of those props. The second part is
  why the comparison of the hook, which is with \<^verbatim>\<open>this.props\<close>, is a comparison
  with the values that produced the cache.
\<close>

lemma run_producedFrom:
  "cachedHighlightRects (state (run pg ps events)) =
     fst (computeRects (fst (producedFrom pg ps events)) (snd (producedFrom pg ps events))) \<and>
   highlight (props (run pg ps events)) = highlight (snd (producedFrom pg ps events)) \<and>
   offsetParent (props (run pg ps events)) = offsetParent (snd (producedFrom pg ps events))"
proof (induction events rule: rev_induct)
  case Nil
  show ?case by (simp add: run_def producedFrom_def state_mount props_mount)
next
  case (snoc e events)
  obtain pg0 ps0 where used: "producedFrom pg ps events = (pg0, ps0)"
    by (cases "producedFrom pg ps events")
  from snoc used have old:
    "cachedHighlightRects (state (run pg ps events)) = fst (computeRects pg0 ps0)"
    "highlight (props (run pg ps events)) = highlight ps0"
    "offsetParent (props (run pg ps events)) = offsetParent ps0"
    by simp_all
  show ?case
  proof (cases e)
    case (ReceiveProps pg' nextProps)
    show ?thesis
    proof (cases "highlight nextProps \<noteq> highlight ps0 \<or> offsetParent nextProps \<noteq> offsetParent ps0")
      case True
      with old have "highlight (props (run pg ps events)) \<noteq> highlight nextProps \<or>
          offsetParent (props (run pg ps events)) \<noteq> offsetParent nextProps"
        by auto
      from componentWillReceiveProps_changed [OF this, of pg'] True used show ?thesis
        by (simp add: run_snoc producedFrom_snoc ReceiveProps state_receiveProps
            props_receiveProps)
    next
      case False
      with old have "highlight (props (run pg ps events)) = highlight nextProps"
        "offsetParent (props (run pg ps events)) = offsetParent nextProps"
        by auto
      from componentWillReceiveProps_same [OF this, of pg'] False used old show ?thesis
        by (simp add: run_snoc producedFrom_snoc ReceiveProps state_receiveProps
            props_receiveProps)
    qed
  next
    case (Fire h)
    with used old show ?thesis
      by (simp add: run_snoc producedFrom_snoc cachedHighlightRects_invoke)
  qed
qed

lemma not_hovered_empty_cache:
  "cachedHighlightRects (state this) = [] \<Longrightarrow> \<not> fst (highlightIsHovered pg this pos)"
  by (cases pos) (simp_all add: highlightIsHovered_None fst_highlightIsHovered_Some)

text \<open>The tooltip that a component mounted on \<open>page1\<close> with \<open>props1\<close> renders there.\<close>

lemma render_page1_mounted:
  "tooltip (fst (render page1 (fst (mount page1 props1)))) =
     Some \<lparr>label = ''Remove highlight'', onClick = HandleRemoveHighlight,
           onMouseEnter = HandleTooltipMouseEnter, onMouseLeave = HandleTooltipMouseLeave,
           focusNode = 8, focusOffset = 5, tooltipOffsetParent = 3, zIndex = 2\<rparr>"
  by (simp add: render_def mount_def computeRects_def shouldShowTooltip_def
      highlightIsHovered_def rectIsHovered_def getRelativePosition_def getRelativeRect_def
      page1_def props1_def range1_def Let_def fsub_int)

subsection \<open>The claims\<close>

text \<open>
  C1. The tooltip decision: \<open>False\<close> when the highlight is not editable, whatever the
  hover state; \<open>True\<close> when it is editable and the tooltip is hovered, wherever the
  mouse is; otherwise the result of the highlight hover test. Equivalently
  \<open>editable \<and> (tooltipHovered \<or> highlightHovered)\<close>.
\<close>

theorem shouldShowTooltip_decision:
  "fst (shouldShowTooltip pg this) =
     (if \<not> editable (props this) then False
      else if tooltipIsHovered (state this) then True
      else fst (highlightIsHovered pg this (mouseClientPosition (props this)))) \<and>
   fst (shouldShowTooltip pg this) =
     (editable (props this) \<and>
      (tooltipIsHovered (state this) \<or>
       fst (highlightIsHovered pg this (mouseClientPosition (props this)))))"
  by (simp add: fst_shouldShowTooltip)

text \<open>
  The spec's example, with the container at \<open>(20, 40)\<close>: the mouse over the cached
  rectangle shows the tooltip; away from it the tooltip is hidden, unless the tooltip
  itself is hovered; a highlight that is not editable never shows it.
\<close>

theorem shouldShowTooltip_decision_witness:
  "fst (shouldShowTooltip page1
     (renderer1\<lparr>props := props1\<lparr>mouseClientPosition := Some \<lparr>left = 25, top_px = 45\<rparr>\<rparr>\<rparr>)) \<and>
   \<not> fst (shouldShowTooltip page1
     (renderer1\<lparr>props := props1\<lparr>mouseClientPosition := Some \<lparr>left = 70, top_px = 90\<rparr>\<rparr>\<rparr>)) \<and>
   fst (shouldShowTooltip page1
     (renderer1\<lparr>props := props1\<lparr>mouseClientPosition := Some \<lparr>left = 70, top_px = 90\<rparr>\<rparr>,
                state := (state renderer1)\<lparr>tooltipIsHovered := True\<rparr>\<rparr>)) \<and>
   \<not> fst (shouldShowTooltip page1
     (renderer1\<lparr>props := props1\<lparr>editable := False,
                                  mouseClientPosition := Some \<lparr>left = 25, top_px = 45\<rparr>\<rparr>,
                state := (state renderer1)\<lparr>tooltipIsHovered := True\<rparr>\<rparr>))"
  using
    shouldShowTooltip_decision [of page1
      "renderer1\<lparr>props := props1\<lparr>mouseClientPosition := Some \<lparr>left = 25, top_px = 45\<rparr>\<rparr>\<rparr>"]
    shouldShowTooltip_decision [of page1
      "renderer1\<lparr>props := props1\<lparr>mouseClientPosition := Some \<lparr>left = 70, top_px = 90\<rparr>\<rparr>\<rparr>"]
    shouldShowTooltip_decision [of page1
      "renderer1\<lparr>props := props1\<lparr>mouseClientPosition := Some \<lparr>left = 70, top_px = 90\<rparr>\<rparr>,
                 state := (state renderer1)\<lparr>tooltipIsHovered := True\<rparr>\<rparr>"]
    shouldShowTooltip_decision [of page1
      "renderer1\<lparr>props := props1\<lparr>editable := False,
                                  mouseClientPosition := Some \<lparr>left = 25, top_px = 45\<rparr>\<rparr>,
                 state := (state renderer1)\<lparr>tooltipIsHovered := True\<rparr>\<rparr>"]
  by (simp add: renderer1_def props1_def page1_def highlightIsHovered_def rectIsHovered_def
      getRelativePosition_def fsub_int)




text \<open>
  C3. With the mouse position present, the hover test of the highlight makes one call,
  \<^verbatim>\<open>getBoundingClientRect\<close> on the offset parent, on the page as it is when the test
  runs; the state holds no rectangle of the container. The mouse position minus the
  corner of that rectangle (the subtraction of JavaScript, \<open>fsub\<close>) is then tested
  against the cached rectangles, and the result
  is true exactly when some cached rectangle contains it. Two caches with the same set of
  rectangles give the same result, whatever their order.
\<close>

theorem highlightIsHovered_reads_container_fresh:
  "fst (highlightIsHovered pg this (Some p)) =
     (\<exists>r \<in> set (cachedHighlightRects (state this)).
        rectIsHovered r
          \<lparr>left = fsub (left p) (left (getBoundingClientRect pg (offsetParent (props this)))),
           top_px = fsub (top_px p) (top_px (getBoundingClientRect pg (offsetParent (props this))))\<rparr>) \<and>
   snd (highlightIsHovered pg this (Some p)) =
     [CallGetBoundingClientRect (offsetParent (props this))] \<and>
   (set (cachedHighlightRects (state that)) = set (cachedHighlightRects (state this)) \<and>
    offsetParent (props that) = offsetParent (props this) \<longrightarrow>
      fst (highlightIsHovered pg that (Some p)) = fst (highlightIsHovered pg this (Some p)))"
  by (simp add: fst_highlightIsHovered_Some snd_highlightIsHovered_Some getRelativePosition_def)

text \<open>
  The component is mounted on \<open>page1\<close>. On \<open>page2\<close> the container has scrolled up by
  \<open>100\<close>: the same mouse position no longer hits the cached rectangles, and the
  position \<open>100\<close> higher does. Reversing the cache changes nothing.
\<close>

theorem highlightIsHovered_reads_container_fresh_witness:
  "fst (highlightIsHovered page1 (fst (mount page1 props1)) (Some \<lparr>left = 125, top_px = 45\<rparr>)) \<and>
   \<not> fst (highlightIsHovered page2 (fst (mount page1 props1)) (Some \<lparr>left = 125, top_px = 45\<rparr>)) \<and>
   fst (highlightIsHovered page2 (fst (mount page1 props1)) (Some \<lparr>left = 125, top_px = - 55\<rparr>)) \<and>
   snd (highlightIsHovered page2 (fst (mount page1 props1)) (Some \<lparr>left = 125, top_px = - 55\<rparr>)) =
     [CallGetBoundingClientRect 3] \<and>
   fst (highlightIsHovered page1
     \<lparr>props = props1,
      state = \<lparr>cachedHighlightRects = rev (fst (computeRects page1 props1)),
               tooltipIsHovered = False\<rparr>\<rparr>
     (Some \<lparr>left = 125, top_px = 45\<rparr>))"
proof -
  let ?c = "fst (mount page1 props1)"
  let ?d = "\<lparr>props = props1,
      state = \<lparr>cachedHighlightRects = rev (fst (computeRects page1 props1)),
               tooltipIsHovered = False\<rparr>\<rparr>"
  have cache: "cachedHighlightRects (state ?c) =
      [\<lparr>left = 100, top_px = 0, width = 60, height = 10\<rparr>,
       \<lparr>left = 0, top_px = 10, width = 100, height = 10\<rparr>]"
    by (simp add: state_mount fst_computeRects page1_def getRelativeRect_def fsub_int)
  have container: "offsetParent (props ?c) = 3"
    "getBoundingClientRect page1 3 = \<lparr>left = 20, top_px = 40, width = 300, height = 200\<rparr>"
    "getBoundingClientRect page2 3 = \<lparr>left = 20, top_px = - 60, width = 300, height = 200\<rparr>"
    by (simp_all add: props_mount props1_def page1_def page2_def)
  have same: "set (cachedHighlightRects (state ?d)) = set (cachedHighlightRects (state ?c)) \<and>
      offsetParent (props ?d) = offsetParent (props ?c)"
    by (simp add: state_mount props_mount)
  have 1: "fst (highlightIsHovered page1 ?c (Some \<lparr>left = 125, top_px = 45\<rparr>))"
    using highlightIsHovered_reads_container_fresh [of page1 ?c "\<lparr>left = 125, top_px = 45\<rparr>" ?d]
    by (simp add: cache container rectIsHovered_rounded fsub_int)
  have 2: "\<not> fst (highlightIsHovered page2 ?c (Some \<lparr>left = 125, top_px = 45\<rparr>))"
    using highlightIsHovered_reads_container_fresh [of page2 ?c "\<lparr>left = 125, top_px = 45\<rparr>" ?c]
    by (simp add: cache container rectIsHovered_rounded fsub_int)
  have 3: "fst (highlightIsHovered page2 ?c (Some \<lparr>left = 125, top_px = - 55\<rparr>)) \<and>
      snd (highlightIsHovered page2 ?c (Some \<lparr>left = 125, top_px = - 55\<rparr>)) =
        [CallGetBoundingClientRect 3]"
    using highlightIsHovered_reads_container_fresh [of page2 ?c "\<lparr>left = 125, top_px = - 55\<rparr>" ?c]
    by (simp add: cache container rectIsHovered_rounded fsub_int)
  have 4: "fst (highlightIsHovered page1 ?d (Some \<lparr>left = 125, top_px = 45\<rparr>))"
    using highlightIsHovered_reads_container_fresh [of page1 ?c "\<lparr>left = 125, top_px = 45\<rparr>" ?d]
      same 1 by blast
  from 1 2 3 4 show ?thesis by blast
qed

text \<open>
  C4. Take a component after mount and any events, and the page and props that, by the
  spec's policy \<open>producedFrom\<close>, produced its current cache; the cache is indeed what
  the recomputation returned for them. When props arrive, the layout is measured again
  (the call list is not empty) exactly when their highlight reference or their offset
  parent reference differs from the one of the props that produced the cache. In that
  case the cache becomes the rectangles computed from the new props on the present page.
  Otherwise, whatever else has changed in the props or on the page, the state stays as
  it is and nothing is called. The tooltip flag is kept in both cases, and the new props
  are installed.
\<close>

theorem cache_recomputed_iff_source_references_changed:
  "cachedHighlightRects (state (run pg ps events)) =
     fst (computeRects (fst (producedFrom pg ps events)) (snd (producedFrom pg ps events))) \<and>
   (snd (componentWillReceiveProps pg' (run pg ps events) nextProps) \<noteq> [] \<longleftrightarrow>
      highlight nextProps \<noteq> highlight (snd (producedFrom pg ps events)) \<or>
      offsetParent nextProps \<noteq> offsetParent (snd (producedFrom pg ps events))) \<and>
   (highlight nextProps \<noteq> highlight (snd (producedFrom pg ps events)) \<or>
    offsetParent nextProps \<noteq> offsetParent (snd (producedFrom pg ps events)) \<longrightarrow>
      componentWillReceiveProps pg' (run pg ps events) nextProps =
        ((state (run pg ps events))\<lparr>cachedHighlightRects := fst (computeRects pg' nextProps)\<rparr>,
         snd (computeRects pg' nextProps))) \<and>
   (highlight nextProps = highlight (snd (producedFrom pg ps events)) \<and>
    offsetParent nextProps = offsetParent (snd (producedFrom pg ps events)) \<longrightarrow>
      componentWillReceiveProps pg' (run pg ps events) nextProps =
        (state (run pg ps events), [])) \<and>
   tooltipIsHovered (fst (componentWillReceiveProps pg' (run pg ps events) nextProps)) =
     tooltipIsHovered (state (run pg ps events)) \<and>
   receiveProps pg' (run pg ps events) nextProps =
     (\<lparr>props = nextProps,
       state = fst (componentWillReceiveProps pg' (run pg ps events) nextProps)\<rparr>,
      snd (componentWillReceiveProps pg' (run pg ps events) nextProps)) \<and>
   run pg ps (events @ [ReceiveProps pg' nextProps]) =
     fst (receiveProps pg' (run pg ps events) nextProps)"
proof -
  let ?c = "run pg ps events"
  let ?used = "snd (producedFrom pg ps events)"
  from run_producedFrom [of pg ps events] have inv:
    "cachedHighlightRects (state ?c) =
       fst (computeRects (fst (producedFrom pg ps events)) ?used)"
    "highlight (props ?c) = highlight ?used"
    "offsetParent (props ?c) = offsetParent ?used"
    by simp_all
  have glue: "receiveProps pg' ?c nextProps =
     (\<lparr>props = nextProps, state = fst (componentWillReceiveProps pg' ?c nextProps)\<rparr>,
      snd (componentWillReceiveProps pg' ?c nextProps))"
    by (simp add: receiveProps_def split: prod.split)
  have next_run: "run pg ps (events @ [ReceiveProps pg' nextProps]) =
     fst (receiveProps pg' ?c nextProps)"
    by (simp add: run_snoc)
  show ?thesis
  proof (cases "highlight nextProps \<noteq> highlight ?used \<or> offsetParent nextProps \<noteq> offsetParent ?used")
    case True
    with inv have "highlight (props ?c) \<noteq> highlight nextProps \<or>
        offsetParent (props ?c) \<noteq> offsetParent nextProps"
      by auto
    from componentWillReceiveProps_changed [OF this, of pg'] True inv(1) glue next_run
    show ?thesis by (simp add: snd_computeRects)
  next
    case False
    with inv have "highlight (props ?c) = highlight nextProps"
      "offsetParent (props ?c) = offsetParent nextProps"
      by auto
    from componentWillReceiveProps_same [OF this, of pg'] False inv(1) glue next_run
    show ?thesis by simp
  qed
qed

text \<open>
  The component is mounted on \<open>page1\<close>; the tooltip is entered and props without a
  mouse position arrive on \<open>page2\<close>. The cache is still the one computed at mount.
  Highlights \<open>1\<close> and \<open>2\<close> have equal contents and different identity: props with
  highlight \<open>2\<close> make the layout be measured again. Props with a new offset parent, on
  a page that gives no rectangle, empty the cache. Props with new values of everything
  else, on that page, leave the state as it was and call nothing.
\<close>

theorem cache_recomputed_iff_source_references_changed_witness:
  "producedFrom page1 props1
     [Fire HandleTooltipMouseEnter, ReceiveProps page2 (props1\<lparr>mouseClientPosition := None\<rparr>)] =
     (page1, props1) \<and>
   state (run page1 props1
     [Fire HandleTooltipMouseEnter, ReceiveProps page2 (props1\<lparr>mouseClientPosition := None\<rparr>)]) =
     \<lparr>cachedHighlightRects =
        [\<lparr>left = 100, top_px = 0, width = 60, height = 10\<rparr>,
         \<lparr>left = 0, top_px = 10, width = 100, height = 10\<rparr>],
      tooltipIsHovered = True\<rparr> \<and>
   highlightAt page1 1 = highlightAt page1 2 \<and>
   snd (componentWillReceiveProps page1
     (run page1 props1
        [Fire HandleTooltipMouseEnter, ReceiveProps page2 (props1\<lparr>mouseClientPosition := None\<rparr>)])
     (props1\<lparr>highlight := 2\<rparr>)) =
     [CallGetClientRectsForTextInRange range1, CallGetBoundingClientRect 3] \<and>
   componentWillReceiveProps emptyPage
     (run page1 props1
        [Fire HandleTooltipMouseEnter, ReceiveProps page2 (props1\<lparr>mouseClientPosition := None\<rparr>)])
     (props1\<lparr>offsetParent := 4\<rparr>) =
     (\<lparr>cachedHighlightRects = [], tooltipIsHovered = True\<rparr>,
      [CallGetClientRectsForTextInRange range1, CallGetBoundingClientRect 4]) \<and>
   componentWillReceiveProps emptyPage
     (run page1 props1
        [Fire HandleTooltipMouseEnter, ReceiveProps page2 (props1\<lparr>mouseClientPosition := None\<rparr>)])
     (props1\<lparr>editable := False, highlightKey := ''hl-2'', mouseClientPosition := None,
             onRemoveHighlight := 10, zIndexes := \<lparr>aboveContent = 5, belowContent = 0\<rparr>\<rparr>) =
     (\<lparr>cachedHighlightRects =
         [\<lparr>left = 100, top_px = 0, width = 60, height = 10\<rparr>,
          \<lparr>left = 0, top_px = 10, width = 100, height = 10\<rparr>],
       tooltipIsHovered = True\<rparr>, [])"
proof -
  let ?events = "[Fire HandleTooltipMouseEnter,
      ReceiveProps page2 (props1\<lparr>mouseClientPosition := None\<rparr>)]"
  let ?c = "run page1 props1 ?events"
  let ?other = "props1\<lparr>editable := False, highlightKey := ''hl-2'', mouseClientPosition := None,
             onRemoveHighlight := 10, zIndexes := \<lparr>aboveContent = 5, belowContent = 0\<rparr>\<rparr>"
  have used: "producedFrom page1 props1 ?events = (page1, props1)"
    by (simp add: producedFrom_def)
  have tip: "tooltipIsHovered (state ?c)"
    by (simp add: run_def receiveProps_def componentWillReceiveProps_def
        handleTooltipMouseEnter_def props_mount)
  have computed: "fst (computeRects page1 props1) =
       [\<lparr>left = 100, top_px = 0, width = 60, height = 10\<rparr>,
        \<lparr>left = 0, top_px = 10, width = 100, height = 10\<rparr>]"
    by (simp add: fst_computeRects page1_def getRelativeRect_def fsub_int)
  have "cachedHighlightRects (state ?c) = fst (computeRects page1 props1)"
    using cache_recomputed_iff_source_references_changed [of page1 props1 ?events page1 props1]
    by (simp only: used fst_conv snd_conv)
  with tip computed have st: "state ?c =
     \<lparr>cachedHighlightRects =
        [\<lparr>left = 100, top_px = 0, width = 60, height = 10\<rparr>,
         \<lparr>left = 0, top_px = 10, width = 100, height = 10\<rparr>],
      tooltipIsHovered = True\<rparr>"
    by simp
  have 0: "highlightAt page1 1 = highlightAt page1 2"
    by (simp add: page1_def)
  have h1: "highlight (props1\<lparr>highlight := 2\<rparr>) \<noteq> highlight (snd (producedFrom page1 props1 ?events)) \<or>
      offsetParent (props1\<lparr>highlight := 2\<rparr>) \<noteq> offsetParent (snd (producedFrom page1 props1 ?events))"
    unfolding used by (simp add: props1_def)
  have 1: "snd (componentWillReceiveProps page1 ?c (props1\<lparr>highlight := 2\<rparr>)) =
      [CallGetClientRectsForTextInRange range1, CallGetBoundingClientRect 3]"
    using cache_recomputed_iff_source_references_changed
      [of page1 props1 ?events page1 "props1\<lparr>highlight := 2\<rparr>"] h1
    by (simp add: snd_computeRects page1_def props1_def)
  have h2: "highlight (props1\<lparr>offsetParent := 4\<rparr>) \<noteq> highlight (snd (producedFrom page1 props1 ?events)) \<or>
      offsetParent (props1\<lparr>offsetParent := 4\<rparr>) \<noteq> offsetParent (snd (producedFrom page1 props1 ?events))"
    unfolding used by (simp add: props1_def)
  have "componentWillReceiveProps emptyPage ?c (props1\<lparr>offsetParent := 4\<rparr>) =
      ((state ?c)\<lparr>cachedHighlightRects := fst (computeRects emptyPage (props1\<lparr>offsetParent := 4\<rparr>))\<rparr>,
       snd (computeRects emptyPage (props1\<lparr>offsetParent := 4\<rparr>)))"
    using cache_recomputed_iff_source_references_changed
      [of page1 props1 ?events emptyPage "props1\<lparr>offsetParent := 4\<rparr>"] h2
    by blast
  then have 2: "componentWillReceiveProps emptyPage ?c (props1\<lparr>offsetParent := 4\<rparr>) =
     (\<lparr>cachedHighlightRects = [], tooltipIsHovered = True\<rparr>,
      [CallGetClientRectsForTextInRange range1, CallGetBoundingClientRect 4])"
    by (simp add: st fst_computeRects snd_computeRects emptyPage_def)
  have h3: "highlight ?other = highlight (snd (producedFrom page1 props1 ?events)) \<and>
      offsetParent ?other = offsetParent (snd (producedFrom page1 props1 ?events))"
    unfolding used by simp
  have 3: "componentWillReceiveProps emptyPage ?c ?other = (state ?c, [])"
    using cache_recomputed_iff_source_references_changed
      [of page1 props1 ?events emptyPage ?other] h3
    by blast
  from used st 0 1 2 3 show ?thesis by simp
qed

text \<open>
  C5. The recomputation is the composition the spec describes: the rectangles of the
  highlight's range, each mapped through \<open>getRelativeRect\<close> against the bounding
  rectangle of the offset parent, both measured on the page as it is when the
  recomputation runs (these are its two calls, in this order). The result has the length
  and the order of the range's rectangles; its \<open>i\<close>-th rectangle is the \<open>i\<close>-th
  rectangle of the range moved by the container's corner (each coordinate minus the
  container's, with the subtraction of JavaScript), with the same width and height.
\<close>

theorem computeRects_is_translated_range_rects:
  "fst (computeRects pg ps) =
     map (\<lambda>rect. getRelativeRect rect (getBoundingClientRect pg (offsetParent ps)))
       (getClientRectsForTextInRange pg (domRange (highlightAt pg (highlight ps)))) \<and>
   snd (computeRects pg ps) =
     [CallGetClientRectsForTextInRange (domRange (highlightAt pg (highlight ps))),
      CallGetBoundingClientRect (offsetParent ps)] \<and>
   length (fst (computeRects pg ps)) =
     length (getClientRectsForTextInRange pg (domRange (highlightAt pg (highlight ps)))) \<and>
   (\<forall>i < length (getClientRectsForTextInRange pg (domRange (highlightAt pg (highlight ps)))).
      left (fst (computeRects pg ps) ! i) =
        fsub (left (getClientRectsForTextInRange pg (domRange (highlightAt pg (highlight ps))) ! i))
          (left (getBoundingClientRect pg (offsetParent ps))) \<and>
      top_px (fst (computeRects pg ps) ! i) =
        fsub (top_px (getClientRectsForTextInRange pg (domRange (highlightAt pg (highlight ps))) ! i))
          (top_px (getBoundingClientRect pg (offsetParent ps))) \<and>
      width (fst (computeRects pg ps) ! i) =
        width (getClientRectsForTextInRange pg (domRange (highlightAt pg (highlight ps))) ! i) \<and>
      height (fst (computeRects pg ps) ! i) =
        height (getClientRectsForTextInRange pg (domRange (highlightAt pg (highlight ps))) ! i))"
  by (simp add: fst_computeRects snd_computeRects getRelativeRect_def)

theorem computeRects_is_translated_range_rects_witness:
  "fst (computeRects page1 props1) =
     [\<lparr>left = 100, top_px = 0, width = 60, height = 10\<rparr>,
      \<lparr>left = 0, top_px = 10, width = 100, height = 10\<rparr>] \<and>
   (1::nat) < length (getClientRectsForTextInRange page1 (domRange (highlightAt page1 (highlight props1)))) \<and>
   left (fst (computeRects page1 props1) ! 1) = 20 - 20 \<and>
   top_px (fst (computeRects page1 props1) ! 1) = 50 - 40 \<and>
   width (fst (computeRects page1 props1) ! 1) = 100 \<and>
   height (fst (computeRects page1 props1) ! 1) = 10"
proof -
  have rects: "getClientRectsForTextInRange page1 (domRange (highlightAt page1 (highlight props1))) =
      [\<lparr>left = 120, top_px = 40, width = 60, height = 10\<rparr>,
       \<lparr>left = 20, top_px = 50, width = 100, height = 10\<rparr>]"
    and container: "getBoundingClientRect page1 (offsetParent props1) =
      \<lparr>left = 20, top_px = 40, width = 300, height = 200\<rparr>"
    by (simp_all add: page1_def)
  have len: "(1::nat) < length (getClientRectsForTextInRange page1
      (domRange (highlightAt page1 (highlight props1))))"
    by (simp add: rects)
  note t = computeRects_is_translated_range_rects [of page1 props1]
  from t have all: "fst (computeRects page1 props1) =
      [\<lparr>left = 100, top_px = 0, width = 60, height = 10\<rparr>,
       \<lparr>left = 0, top_px = 10, width = 100, height = 10\<rparr>]"
    by (simp add: rects container getRelativeRect_def fsub_int)
  from t len have
    "left (fst (computeRects page1 props1) ! 1) =
       fsub (left (getClientRectsForTextInRange page1 (domRange (highlightAt page1 (highlight props1))) ! 1))
         (left (getBoundingClientRect page1 (offsetParent props1))) \<and>
     top_px (fst (computeRects page1 props1) ! 1) =
       fsub (top_px (getClientRectsForTextInRange page1 (domRange (highlightAt page1 (highlight props1))) ! 1))
         (top_px (getBoundingClientRect page1 (offsetParent props1))) \<and>
     width (fst (computeRects page1 props1) ! 1) =
       width (getClientRectsForTextInRange page1 (domRange (highlightAt page1 (highlight props1))) ! 1) \<and>
     height (fst (computeRects page1 props1) ! 1) =
       height (getClientRectsForTextInRange page1 (domRange (highlightAt page1 (highlight props1))) ! 1)"
    by blast
  then have second: "left (fst (computeRects page1 props1) ! 1) = 20 - 20 \<and>
      top_px (fst (computeRects page1 props1) ! 1) = 50 - 40 \<and>
      width (fst (computeRects page1 props1) ! 1) = 100 \<and>
      height (fst (computeRects page1 props1) ! 1) = 10"
    by (simp add: rects container fsub_int)
  from all len second show ?thesis by blast
qed

text \<open>
  C6. With the mouse position absent, the hover test of the highlight returns
  \<open>False\<close> and measures nothing. A component whose props hold no mouse position
  shows the tooltip only when it is editable and the tooltip itself is hovered; when the
  tooltip is not hovered, no tooltip is rendered.
\<close>

theorem absent_pointer_is_not_hovered:
  "highlightIsHovered pg this None = (False, []) \<and>
   (mouseClientPosition (props this) = None \<longrightarrow>
      fst (shouldShowTooltip pg this) = (editable (props this) \<and> tooltipIsHovered (state this)) \<and>
      snd (shouldShowTooltip pg this) = [] \<and>
      (\<not> tooltipIsHovered (state this) \<longrightarrow> tooltip (fst (render pg this)) = None))"
  by (simp add: highlightIsHovered_None tooltip_render fst_shouldShowTooltip)
    (simp add: shouldShowTooltip_def highlightIsHovered_None)

theorem absent_pointer_is_not_hovered_witness:
  "mouseClientPosition (props (renderer1\<lparr>props := props1\<lparr>mouseClientPosition := None\<rparr>\<rparr>)) = None \<and>
   \<not> tooltipIsHovered (state (renderer1\<lparr>props := props1\<lparr>mouseClientPosition := None\<rparr>\<rparr>)) \<and>
   highlightIsHovered page1 (renderer1\<lparr>props := props1\<lparr>mouseClientPosition := None\<rparr>\<rparr>) None =
     (False, []) \<and>
   shouldShowTooltip page1 (renderer1\<lparr>props := props1\<lparr>mouseClientPosition := None\<rparr>\<rparr>) = (False, []) \<and>
   tooltip (fst (render page1 (renderer1\<lparr>props := props1\<lparr>mouseClientPosition := None\<rparr>\<rparr>))) = None"
proof -
  let ?c = "renderer1\<lparr>props := props1\<lparr>mouseClientPosition := None\<rparr>\<rparr>"
  have h: "mouseClientPosition (props ?c) = None" "\<not> tooltipIsHovered (state ?c)"
    by (simp_all add: renderer1_def)
  have e: "editable (props ?c)"
    by (simp add: props1_def)
  from absent_pointer_is_not_hovered [of page1 ?c] h e
  have "highlightIsHovered page1 ?c None = (False, [])"
    "fst (shouldShowTooltip page1 ?c) = False" "snd (shouldShowTooltip page1 ?c) = []"
    "tooltip (fst (render page1 ?c)) = None"
    by blast+
  with h show ?thesis by (simp add: prod_eq_iff)
qed

text \<open>
  C7. When the range of the highlight has no rectangle, the recomputation returns the
  empty list, as a value. A component mounted then, or one that receives these props
  with a new highlight or offset parent, has an empty cache; for every mouse position,
  absent or present, and on every later layout \<open>pg'\<close>, its highlight is not
  hovered and it renders no highlight rectangle.
\<close>

theorem no_rectangles_no_hover_nothing_drawn:
  "getClientRectsForTextInRange pg (domRange (highlightAt pg (highlight ps))) = [] \<longrightarrow>
     fst (computeRects pg ps) = [] \<and>
     cachedHighlightRects (state (fst (mount pg ps))) = [] \<and>
     \<not> fst (highlightIsHovered pg' (fst (mount pg ps)) pos) \<and>
     highlightRectDivs (fst (render pg' (fst (mount pg ps)))) = [] \<and>
     (highlight (props this) \<noteq> highlight ps \<or> offsetParent (props this) \<noteq> offsetParent ps \<longrightarrow>
        cachedHighlightRects (state (fst (receiveProps pg this ps))) = [] \<and>
        \<not> fst (highlightIsHovered pg' (fst (receiveProps pg this ps)) pos) \<and>
        highlightRectDivs (fst (render pg' (fst (receiveProps pg this ps)))) = [])"
proof (intro impI)
  assume empty: "getClientRectsForTextInRange pg (domRange (highlightAt pg (highlight ps))) = []"
  then have computed: "fst (computeRects pg ps) = []"
    by (simp add: fst_computeRects)
  then have mounted: "cachedHighlightRects (state (fst (mount pg ps))) = []"
    by (simp add: state_mount)
  have received: "cachedHighlightRects (state (fst (receiveProps pg this ps))) = []"
    if "highlight (props this) \<noteq> highlight ps \<or> offsetParent (props this) \<noteq> offsetParent ps"
    using that computed by (simp add: state_receiveProps componentWillReceiveProps_changed)
  have drawn: "highlightRectDivs (fst (render pg' c)) = []"
    if "cachedHighlightRects (state c) = []" for c
    using that length_highlightRectDivs [of pg' c] by simp
  from computed mounted received show
    "fst (computeRects pg ps) = [] \<and>
     cachedHighlightRects (state (fst (mount pg ps))) = [] \<and>
     \<not> fst (highlightIsHovered pg' (fst (mount pg ps)) pos) \<and>
     highlightRectDivs (fst (render pg' (fst (mount pg ps)))) = [] \<and>
     (highlight (props this) \<noteq> highlight ps \<or> offsetParent (props this) \<noteq> offsetParent ps \<longrightarrow>
        cachedHighlightRects (state (fst (receiveProps pg this ps))) = [] \<and>
        \<not> fst (highlightIsHovered pg' (fst (receiveProps pg this ps)) pos) \<and>
        highlightRectDivs (fst (render pg' (fst (receiveProps pg this ps)))) = [])"
    by (simp add: not_hovered_empty_cache drawn)
qed

theorem no_rectangles_no_hover_nothing_drawn_witness:
  "getClientRectsForTextInRange emptyPage (domRange (highlightAt emptyPage (highlight props1))) = [] \<and>
   highlight (props (fst (mount page1 (props1\<lparr>highlight := 2\<rparr>)))) \<noteq> highlight props1 \<and>
   state (fst (mount emptyPage props1)) = \<lparr>cachedHighlightRects = [], tooltipIsHovered = False\<rparr> \<and>
   \<not> fst (highlightIsHovered page1 (fst (mount emptyPage props1)) (Some \<lparr>left = 125, top_px = 45\<rparr>)) \<and>
   highlightRectDivs (fst (render page1 (fst (mount emptyPage props1)))) = [] \<and>
   cachedHighlightRects (state (fst (mount page1 (props1\<lparr>highlight := 2\<rparr>)))) \<noteq> [] \<and>
   cachedHighlightRects
     (state (fst (receiveProps emptyPage (fst (mount page1 (props1\<lparr>highlight := 2\<rparr>))) props1))) = [] \<and>
   highlightRectDivs (fst (render page1
     (fst (receiveProps emptyPage (fst (mount page1 (props1\<lparr>highlight := 2\<rparr>))) props1)))) = []"
proof -
  let ?c = "fst (mount page1 (props1\<lparr>highlight := 2\<rparr>))"
  have h: "getClientRectsForTextInRange emptyPage
      (domRange (highlightAt emptyPage (highlight props1))) = []"
    by (simp add: emptyPage_def)
  have d: "highlight (props ?c) \<noteq> highlight props1"
    by (simp add: props_mount props1_def)
  have before: "cachedHighlightRects (state ?c) \<noteq> []"
    by (simp add: state_mount fst_computeRects page1_def)
  from no_rectangles_no_hover_nothing_drawn
    [of emptyPage props1 page1 "Some \<lparr>left = 125, top_px = 45\<rparr>" ?c] h d
  have "cachedHighlightRects (state (fst (mount emptyPage props1))) = []"
    "\<not> fst (highlightIsHovered page1 (fst (mount emptyPage props1)) (Some \<lparr>left = 125, top_px = 45\<rparr>))"
    "highlightRectDivs (fst (render page1 (fst (mount emptyPage props1)))) = []"
    "cachedHighlightRects (state (fst (receiveProps emptyPage ?c props1))) = []"
    "highlightRectDivs (fst (render page1 (fst (receiveProps emptyPage ?c props1)))) = []"
    by blast+
  with h d before show ?thesis by (simp add: state_mount)
qed

text \<open>
  C8. The recomputation is a function of the page and of the props, and of nothing of
  the component: it has no state to read or to write. Two runs for the same highlight and
  offset parent, on layouts that give the range the same rectangles and the container the
  same bounding rectangle, return the same list, whatever else differs in the props or
  on the page.
\<close>

theorem computeRects_deterministic:
  "highlight ps2 = highlight ps1 \<and> offsetParent ps2 = offsetParent ps1 \<and>
   getClientRectsForTextInRange pg2 (domRange (highlightAt pg2 (highlight ps1))) =
     getClientRectsForTextInRange pg1 (domRange (highlightAt pg1 (highlight ps1))) \<and>
   getBoundingClientRect pg2 (offsetParent ps1) = getBoundingClientRect pg1 (offsetParent ps1) \<longrightarrow>
     fst (computeRects pg2 ps2) = fst (computeRects pg1 ps1) \<and>
     cachedHighlightRects (state (fst (mount pg2 ps2))) =
       cachedHighlightRects (state (fst (mount pg1 ps1)))"
  by (simp add: fst_computeRects state_mount)

text \<open>
  The second run is on a page where another element has moved, with other values of
  the editable flag, the key and the mouse position.
\<close>

theorem computeRects_deterministic_witness:
  "fst (computeRects
      (page1\<lparr>getBoundingClientRect :=
         (getBoundingClientRect page1)(4 := \<lparr>left = 0, top_px = 0, width = 1, height = 1\<rparr>)\<rparr>)
      (props1\<lparr>editable := False, highlightKey := ''hl-2'', mouseClientPosition := None\<rparr>)) =
   fst (computeRects page1 props1) \<and>
   fst (computeRects page1 props1) =
     [\<lparr>left = 100, top_px = 0, width = 60, height = 10\<rparr>,
      \<lparr>left = 0, top_px = 10, width = 100, height = 10\<rparr>]"
proof -
  let ?pg = "page1\<lparr>getBoundingClientRect :=
         (getBoundingClientRect page1)(4 := \<lparr>left = 0, top_px = 0, width = 1, height = 1\<rparr>)\<rparr>"
  let ?ps = "props1\<lparr>editable := False, highlightKey := ''hl-2'', mouseClientPosition := None\<rparr>"
  have h: "highlight ?ps = highlight props1 \<and> offsetParent ?ps = offsetParent props1 \<and>
      getClientRectsForTextInRange ?pg (domRange (highlightAt ?pg (highlight props1))) =
        getClientRectsForTextInRange page1 (domRange (highlightAt page1 (highlight props1))) \<and>
      getBoundingClientRect ?pg (offsetParent props1) =
        getBoundingClientRect page1 (offsetParent props1)"
    by (simp add: props1_def)
  from computeRects_deterministic [of ?ps props1 ?pg page1] h
  have same: "fst (computeRects ?pg ?ps) = fst (computeRects page1 props1)"
    by blast
  have "fst (computeRects page1 props1) =
     [\<lparr>left = 100, top_px = 0, width = 60, height = 10\<rparr>,
      \<lparr>left = 0, top_px = 10, width = 100, height = 10\<rparr>]"
    by (simp add: fst_computeRects page1_def getRelativeRect_def fsub_int)
  with same show ?thesis by blast
qed

text \<open>
  C9. The remove handler makes one call, of the \<^verbatim>\<open>onRemoveHighlight\<close> callback of
  the props with the \<^verbatim>\<open>highlightKey\<close> of the props, and returns the state as it
  is. It is the handler that a rendered tooltip runs on a click.
\<close>

theorem remove_forwards_key_only:
  "handleRemoveHighlight this =
     (state this,
      [CallOnRemoveHighlight (onRemoveHighlight (props this)) (highlightKey (props this))]) \<and>
   (tooltip (fst (render pg this)) = Some t \<longrightarrow>
      fst (invoke (onClick t) this) = state this \<and>
      snd (invoke (onClick t) this) =
        [CallOnRemoveHighlight (onRemoveHighlight (props this)) (highlightKey (props this))])"
  by (auto simp: handleRemoveHighlight_def render_def Let_def split: prod.splits if_splits)

theorem remove_forwards_key_only_witness:
  "tooltip (fst (render page1 (fst (mount page1 props1)))) =
     Some \<lparr>label = ''Remove highlight'', onClick = HandleRemoveHighlight,
           onMouseEnter = HandleTooltipMouseEnter, onMouseLeave = HandleTooltipMouseLeave,
           focusNode = 8, focusOffset = 5, tooltipOffsetParent = 3, zIndex = 2\<rparr> \<and>
   invoke HandleRemoveHighlight (fst (mount page1 props1)) =
     (\<lparr>cachedHighlightRects =
         [\<lparr>left = 100, top_px = 0, width = 60, height = 10\<rparr>,
          \<lparr>left = 0, top_px = 10, width = 100, height = 10\<rparr>],
       tooltipIsHovered = False\<rparr>,
      [CallOnRemoveHighlight 9 ''hl-1''])"
proof -
  let ?c = "fst (mount page1 props1)"
  let ?t = "\<lparr>label = ''Remove highlight'', onClick = HandleRemoveHighlight,
           onMouseEnter = HandleTooltipMouseEnter, onMouseLeave = HandleTooltipMouseLeave,
           focusNode = 8, focusOffset = 5, tooltipOffsetParent = 3, zIndex = 2\<rparr>"
  have h: "tooltip (fst (render page1 ?c)) = Some ?t"
    by (rule render_page1_mounted)
  from remove_forwards_key_only [of ?c page1 ?t] h
  have "fst (invoke (onClick ?t) ?c) = state ?c"
    "snd (invoke (onClick ?t) ?c) =
       [CallOnRemoveHighlight (onRemoveHighlight (props ?c)) (highlightKey (props ?c))]"
    by blast+
  then have "invoke HandleRemoveHighlight ?c =
      (state ?c, [CallOnRemoveHighlight (onRemoveHighlight (props ?c)) (highlightKey (props ?c))])"
    by (simp add: prod_eq_iff)
  moreover have "state ?c =
      \<lparr>cachedHighlightRects =
         [\<lparr>left = 100, top_px = 0, width = 60, height = 10\<rparr>,
          \<lparr>left = 0, top_px = 10, width = 100, height = 10\<rparr>],
       tooltipIsHovered = False\<rparr>"
    by (simp add: state_mount fst_computeRects page1_def getRelativeRect_def fsub_int)
  moreover have "onRemoveHighlight (props ?c) = 9" "highlightKey (props ?c) = ''hl-1''"
    by (simp_all add: props_mount props1_def)
  ultimately show ?thesis using h by simp
qed

text \<open>
  C10. A rectangle of width \<open>0\<close> or of height \<open>0\<close> contains no point. Dropping
  such rectangles from the cache does not change the result of the highlight's hover
  test.
\<close>

theorem degenerate_rect_never_hovered:
  "(width r = 0 \<or> height r = 0 \<longrightarrow> \<not> rectIsHovered r p) \<and>
   fst (highlightIsHovered pg
     (this\<lparr>state := (state this)\<lparr>cachedHighlightRects :=
        filter (\<lambda>r. width r \<noteq> 0 \<and> height r \<noteq> 0) (cachedHighlightRects (state this))\<rparr>\<rparr>) pos) =
   fst (highlightIsHovered pg this pos)"
proof -
  have deg: "\<not> rectIsHovered r p" if "width r = 0 \<or> height r = 0" for r p
    using that by (auto simp: rectIsHovered_def getRelativePosition_def)
  have "fst (highlightIsHovered pg
     (this\<lparr>state := (state this)\<lparr>cachedHighlightRects :=
        filter (\<lambda>r. width r \<noteq> 0 \<and> height r \<noteq> 0) (cachedHighlightRects (state this))\<rparr>\<rparr>) pos) =
   fst (highlightIsHovered pg this pos)"
  proof (cases pos)
    case None
    then show ?thesis by (simp add: highlightIsHovered_None)
  next
    case (Some q)
    then show ?thesis
      using deg by (auto simp: fst_highlightIsHovered_Some)
  qed
  with deg show ?thesis by blast
qed

theorem degenerate_rect_never_hovered_witness:
  "width \<lparr>left = 0, top_px = 0, width = 0, height = 10\<rparr> = 0 \<and>
   \<not> rectIsHovered \<lparr>left = 0, top_px = 0, width = 0, height = 10\<rparr> \<lparr>left = 0, top_px = 5\<rparr> \<and>
   height \<lparr>left = 0, top_px = 0, width = 10, height = 0\<rparr> = 0 \<and>
   \<not> rectIsHovered \<lparr>left = 0, top_px = 0, width = 10, height = 0\<rparr> \<lparr>left = 5, top_px = 0\<rparr> \<and>
   \<not> fst (highlightIsHovered page1
     \<lparr>props = props1,
      state = \<lparr>cachedHighlightRects = [\<lparr>left = 0, top_px = 0, width = 0, height = 10\<rparr>],
               tooltipIsHovered = False\<rparr>\<rparr>
     (Some \<lparr>left = 20, top_px = 45\<rparr>))"
proof -
  let ?c = "\<lparr>props = props1,
      state = \<lparr>cachedHighlightRects = [\<lparr>left = 0, top_px = 0, width = 0, height = 10\<rparr>],
               tooltipIsHovered = False\<rparr>\<rparr>"
  let ?pos = "Some \<lparr>left = 20, top_px = 45\<rparr>"
  have 1: "\<not> rectIsHovered \<lparr>left = 0, top_px = 0, width = 0, height = 10\<rparr> \<lparr>left = 0, top_px = 5\<rparr>"
    using degenerate_rect_never_hovered [of "\<lparr>left = 0, top_px = 0, width = 0, height = 10\<rparr>"
      "\<lparr>left = 0, top_px = 5\<rparr>" page1 ?c ?pos]
    by simp
  have 2: "\<not> rectIsHovered \<lparr>left = 0, top_px = 0, width = 10, height = 0\<rparr> \<lparr>left = 5, top_px = 0\<rparr>"
    using degenerate_rect_never_hovered [of "\<lparr>left = 0, top_px = 0, width = 10, height = 0\<rparr>"
      "\<lparr>left = 5, top_px = 0\<rparr>" page1 ?c ?pos]
    by simp
  have "fst (highlightIsHovered page1 ?c ?pos) =
      fst (highlightIsHovered page1
        (?c\<lparr>state := (state ?c)\<lparr>cachedHighlightRects :=
           filter (\<lambda>r. width r \<noteq> 0 \<and> height r \<noteq> 0) (cachedHighlightRects (state ?c))\<rparr>\<rparr>) ?pos)"
    using degenerate_rect_never_hovered [of "\<lparr>left = 0, top_px = 0, width = 0, height = 10\<rparr>"
      "\<lparr>left = 0, top_px = 5\<rparr>" page1 ?c ?pos]
    by simp
  also have "\<dots> = False"
    by (simp add: not_hovered_empty_cache)
  finally have 3: "\<not> fst (highlightIsHovered page1 ?c ?pos)"
    by simp
  from 1 2 3 show ?thesis by simp
qed

end
